theory Spec2Isabelle
  imports Main "HOL-Library.Sublist"
begin

section \<open>Python values and exceptions\<close>

text \<open>
  The values \<^verbatim>\<open>response.json()\<close> can return, which are also the values stored in the
  \<^verbatim>\<open>weather_info\<close> dictionary. A \<^verbatim>\<open>str\<close> is a list of characters, one \<open>char\<close> per code
  point (code points below 256). A \<^verbatim>\<open>dict\<close> is an association list in insertion order,
  read with \<open>map_of\<close>; the keys of a dictionary decoded from JSON are always strings and
  distinct. The program never computes with a \<^verbatim>\<open>float\<close>, it only passes it on and
  formats it, so a float is represented by the text \<^verbatim>\<open>repr\<close> gives it.
\<close>

datatype json =
    JNull
  | JBool bool
  | JInt int
  | JFloat string
  | JStr string
  | JArr "json list"
  | JObj "(string \<times> json) list"

text \<open>
  The exceptions that occur. \<open>RequestException m\<close> is any exception of the HTTP library
  that is a \<^verbatim>\<open>requests.exceptions.RequestException\<close> and not a JSON decoding error, with
  \<^verbatim>\<open>str(e) = m\<close>. A JSON decoding error raised by \<^verbatim>\<open>response.json()\<close> is one of two
  classes, depending on the installed library: \<open>JSONDecodeError\<close> is the standard
  library's \<^verbatim>\<open>json.JSONDecodeError\<close>; \<open>RequestsJSONDecodeError m\<close> is
  \<^verbatim>\<open>requests.exceptions.JSONDecodeError\<close> (requests 2.27 and later), which inherits from
  both \<^verbatim>\<open>RequestException\<close> and \<^verbatim>\<open>json.JSONDecodeError\<close>.
\<close>

datatype pyexc =
    AttributeError
  | KeyError
  | IndexError
  | TypeError
  | RequestException string
  | JSONDecodeError
  | RequestsJSONDecodeError string
  | SystemExit int

fun is_RequestException :: "pyexc \<Rightarrow> bool" where
  "is_RequestException (RequestException m) = True"
| "is_RequestException (RequestsJSONDecodeError m) = True"
| "is_RequestException e = False"

fun is_JSONDecodeError :: "pyexc \<Rightarrow> bool" where
  "is_JSONDecodeError JSONDecodeError = True"
| "is_JSONDecodeError (RequestsJSONDecodeError m) = True"
| "is_JSONDecodeError e = False"

fun exc_str :: "pyexc \<Rightarrow> string" where
  "exc_str (RequestException m) = m"
| "exc_str (RequestsJSONDecodeError m) = m"
| "exc_str e = []"

text \<open>Sequencing of expressions that may raise: the first exception wins.\<close>

definition bind_exc :: "pyexc + 'a \<Rightarrow> ('a \<Rightarrow> pyexc + 'b) \<Rightarrow> pyexc + 'b" where
  "bind_exc m f = (case m of Inl e \<Rightarrow> Inl e | Inr v \<Rightarrow> f v)"

text \<open>
  \<^verbatim>\<open>x.get(k, d)\<close>: only a dictionary has the method; on any other value the attribute
  lookup raises \<^verbatim>\<open>AttributeError\<close>.
\<close>

definition dict_get :: "(string \<times> json) list \<Rightarrow> string \<Rightarrow> json \<Rightarrow> json" where
  "dict_get kvs k d = (case map_of kvs k of Some v \<Rightarrow> v | None \<Rightarrow> d)"

fun py_get :: "json \<Rightarrow> string \<Rightarrow> json \<Rightarrow> pyexc + json" where
  "py_get (JObj kvs) k d = Inr (dict_get kvs k d)"
| "py_get x k d = Inl AttributeError"

text \<open>
  \<^verbatim>\<open>x[0]\<close>: the first element of a list, the first character of a string
  (\<^verbatim>\<open>IndexError\<close> when empty); on a dictionary the key \<^verbatim>\<open>0\<close> is never present, as the keys
  are strings (\<^verbatim>\<open>KeyError\<close>); numbers, booleans and \<^verbatim>\<open>None\<close> are not subscriptable
  (\<^verbatim>\<open>TypeError\<close>).
\<close>

fun py_item0 :: "json \<Rightarrow> pyexc + json" where
  "py_item0 (JArr []) = Inl IndexError"
| "py_item0 (JArr (v # vs)) = Inr v"
| "py_item0 (JStr []) = Inl IndexError"
| "py_item0 (JStr (c # cs)) = Inr (JStr [c])"
| "py_item0 (JObj kvs) = Inl KeyError"
| "py_item0 x = Inl TypeError"

section \<open>Console and network\<close>

text \<open>
  The effects of the program: the text written to standard output and the URLs
  requested, in order. \<^verbatim>\<open>print(s)\<close> writes \<open>s\<close> and a newline.
\<close>

record io =
  stdout :: string
  requests :: "string list"

abbreviation NL :: char where
  "NL \<equiv> CHR 0x0A"

definition py_print :: "string \<Rightarrow> io \<Rightarrow> io" where
  "py_print s w = w\<lparr>stdout := stdout w @ s @ [NL]\<rparr>"

datatype 'a outcome = Returns 'a | Raises pyexc

section \<open>parse_weather_data\<close>

text \<open>
  The body of the \<^verbatim>\<open>try\<close> block: \<^verbatim>\<open>current\<close> first, then the entries of the dictionary
  literal in the order they are written.
\<close>

definition parse_weather_data_body :: "json \<Rightarrow> string \<Rightarrow> pyexc + (string \<times> json) list" where
  "parse_weather_data_body data postal_code =
     bind_exc (bind_exc (py_get data ''current_condition'' (JArr [JObj []])) py_item0) (\<lambda>current.
     bind_exc (bind_exc (bind_exc (bind_exc (bind_exc
         (py_get data ''nearest_area'' (JArr [JObj []])) py_item0)
         (\<lambda>a. py_get a ''areaName'' (JArr [JObj []]))) py_item0)
         (\<lambda>n. py_get n ''value'' (JStr ''Unknown''))) (\<lambda>location.
     bind_exc (py_get current ''temp_C'' (JStr ''N/A'')) (\<lambda>temperature.
     bind_exc (py_get current ''temp_F'' (JStr ''N/A'')) (\<lambda>temperature_f.
     bind_exc (bind_exc (bind_exc
         (py_get current ''weatherDesc'' (JArr [JObj []])) py_item0)
         (\<lambda>d. py_get d ''value'' (JStr ''N/A''))) (\<lambda>condition.
     bind_exc (py_get current ''humidity'' (JStr ''N/A'')) (\<lambda>humidity.
     bind_exc (py_get current ''windspeedKmph'' (JStr ''N/A'')) (\<lambda>wind_speed.
     bind_exc (py_get current ''visibility'' (JStr ''N/A'')) (\<lambda>visibility.
     Inr [(''postal_code'', JStr postal_code),
          (''location'', location),
          (''temperature'', temperature),
          (''temperature_f'', temperature_f),
          (''condition'', condition),
          (''humidity'', humidity),
          (''wind_speed'', wind_speed),
          (''visibility'', visibility)]))))))))"

text \<open>
  The handler catches \<^verbatim>\<open>KeyError\<close>, \<^verbatim>\<open>IndexError\<close> and \<^verbatim>\<open>TypeError\<close>, reports and
  returns \<^verbatim>\<open>None\<close>; any other exception leaves the function.
\<close>

definition parse_weather_data :: "json \<Rightarrow> string \<Rightarrow> io \<Rightarrow> (string \<times> json) list option outcome \<times> io" where
  "parse_weather_data data postal_code w =
     (case parse_weather_data_body data postal_code of
        Inr weather_info \<Rightarrow> (Returns (Some weather_info), w)
      | Inl e \<Rightarrow>
          if e = KeyError \<or> e = IndexError \<or> e = TypeError
          then (Returns None, py_print ''Error: Unable to parse weather data'' w)
          else (Raises e, w))"

section \<open>Formatting values\<close>

text \<open>
  An f-string field \<^verbatim>\<open>{v}\<close> is \<^verbatim>\<open>str(v)\<close>. For an \<^verbatim>\<open>int\<close> that is its decimal
  numeral; for a string it is the string itself; for a list or a dictionary it is
  \<^verbatim>\<open>repr\<close>, which quotes and escapes the strings inside.
\<close>

fun nat_digits :: "nat \<Rightarrow> string" where
  "nat_digits n =
     (if n < 10 then [''0123456789'' ! n]
      else nat_digits (n div 10) @ [''0123456789'' ! (n mod 10)])"

declare nat_digits.simps [simp del]

definition py_str_int :: "int \<Rightarrow> string" where
  "py_str_int i = (if i < 0 then CHR ''-'' # nat_digits (nat (- i)) else nat_digits (nat i))"

definition hex2 :: "nat \<Rightarrow> string" where
  "hex2 n = [''0123456789abcdef'' ! (n div 16), ''0123456789abcdef'' ! (n mod 16)]"

text \<open>
  \<^verbatim>\<open>repr\<close> of one character inside the quote \<open>q\<close>: the quote and the backslash are
  escaped, tab, newline and carriage return have their letter, and the code points
  that are not printable (below 32, 127 to 160, 173) are written \<^verbatim>\<open>\xNN\<close>.
\<close>

definition repr_char :: "char \<Rightarrow> char \<Rightarrow> string" where
  "repr_char q c =
     (let n = (of_char c :: nat) in
      if c = q \<or> c = CHR 0x5C then [CHR 0x5C, c]
      else if c = CHR 0x09 then [CHR 0x5C, CHR ''t'']
      else if c = CHR 0x0A then [CHR 0x5C, CHR ''n'']
      else if c = CHR 0x0D then [CHR 0x5C, CHR ''r'']
      else if n < 32 \<or> (127 \<le> n \<and> n \<le> 160) \<or> n = 173 then [CHR 0x5C, CHR ''x''] @ hex2 n
      else [c])"

text \<open>
  The quote is the single quote, unless the string has a single quote and no double
  quote.
\<close>

definition repr_str :: "string \<Rightarrow> string" where
  "repr_str s =
     (let q = (if CHR 0x27 \<in> set s \<and> CHR 0x22 \<notin> set s then CHR 0x22 else CHR 0x27)
      in q # concat (map (repr_char q) s) @ [q])"

fun join_comma :: "string list \<Rightarrow> string" where
  "join_comma [] = []"
| "join_comma [s] = s"
| "join_comma (s # t # ts) = s @ '', '' @ join_comma (t # ts)"

fun py_repr :: "json \<Rightarrow> string" where
  "py_repr JNull = ''None''"
| "py_repr (JBool b) = (if b then ''True'' else ''False'')"
| "py_repr (JInt i) = py_str_int i"
| "py_repr (JFloat r) = r"
| "py_repr (JStr s) = repr_str s"
| "py_repr (JArr vs) = ''['' @ join_comma (map py_repr vs) @ '']''"
| "py_repr (JObj kvs) =
     ''{'' @ join_comma (map (\<lambda>(k, v). repr_str k @ '': '' @ py_repr v) kvs) @ ''}''"

fun py_str :: "json \<Rightarrow> string" where
  "py_str (JStr s) = s"
| "py_str v = py_repr v"

section \<open>display_weather\<close>

text \<open>\<^verbatim>\<open>d[k]\<close> on a dictionary raises \<^verbatim>\<open>KeyError\<close> when the key is absent.\<close>

definition py_getitem :: "(string \<times> json) list \<Rightarrow> string \<Rightarrow> pyexc + json" where
  "py_getitem d k = (case map_of d k of None \<Rightarrow> Inl KeyError | Some v \<Rightarrow> Inr v)"

text \<open>
  A \<^verbatim>\<open>print\<close> whose argument is an f-string: the argument is evaluated first, and when
  that raises nothing is written. \<open>then_do\<close> is the sequence of two statements.
\<close>

definition print_f :: "pyexc + string \<Rightarrow> io \<Rightarrow> unit outcome \<times> io" where
  "print_f m w = (case m of Inl e \<Rightarrow> (Raises e, w) | Inr s \<Rightarrow> (Returns (), py_print s w))"

definition then_do :: "(io \<Rightarrow> unit outcome \<times> io) \<Rightarrow> (io \<Rightarrow> 'a outcome \<times> io) \<Rightarrow> io \<Rightarrow> 'a outcome \<times> io" where
  "then_do m k w = (case m w of (Returns u, w') \<Rightarrow> k w' | (Raises e, w') \<Rightarrow> (Raises e, w'))"

definition border :: string where
  "border = replicate 50 CHR ''=''"

text \<open>The degree sign, code point 176.\<close>

abbreviation DEG :: char where
  "DEG \<equiv> CHR 0xB0"

text \<open>
  \<^verbatim>\<open>not weather_info\<close> holds of \<^verbatim>\<open>None\<close> and of the empty dictionary.
\<close>

fun truthy :: "(string \<times> json) list option \<Rightarrow> bool" where
  "truthy None = False"
| "truthy (Some d) = (d \<noteq> [])"

text \<open>
  \<open>now\<close> is the text of \<^verbatim>\<open>datetime.now().strftime('%Y-%m-%d %H:%M:%S')\<close>, read from the
  clock of the machine.
\<close>

definition display_weather :: "string \<Rightarrow> (string \<times> json) list option \<Rightarrow> io \<Rightarrow> unit outcome \<times> io" where
  "display_weather now weather_info =
     (if \<not> truthy weather_info then (\<lambda>w. (Returns (), w))
      else let d = the weather_info in
        then_do (print_f (Inr (NL # border)))
       (then_do (print_f (bind_exc (py_getitem d ''location'') (\<lambda>v.
                   Inr (''Weather Information for '' @ py_str v))))
       (then_do (print_f (bind_exc (py_getitem d ''postal_code'') (\<lambda>v.
                   Inr (''Postal Code: '' @ py_str v))))
       (then_do (print_f (Inr (''Date: '' @ now)))
       (then_do (print_f (Inr border))
       (then_do (print_f (bind_exc (py_getitem d ''temperature'') (\<lambda>c.
                          bind_exc (py_getitem d ''temperature_f'') (\<lambda>f.
                   Inr (''Temperature: '' @ py_str c @ [DEG] @ ''C ('' @ py_str f @ [DEG] @ ''F)'')))))
       (then_do (print_f (bind_exc (py_getitem d ''condition'') (\<lambda>v.
                   Inr (''Condition: '' @ py_str v))))
       (then_do (print_f (bind_exc (py_getitem d ''humidity'') (\<lambda>v.
                   Inr (''Humidity: '' @ py_str v @ ''%''))))
       (then_do (print_f (bind_exc (py_getitem d ''wind_speed'') (\<lambda>v.
                   Inr (''Wind Speed: '' @ py_str v @ '' km/h''))))
       (then_do (print_f (bind_exc (py_getitem d ''visibility'') (\<lambda>v.
                   Inr (''Visibility: '' @ py_str v @ '' km''))))
       (print_f (Inr (border @ [NL])))))))))))))"

section \<open>get_weather\<close>

text \<open>
  What \<^verbatim>\<open>requests.get\<close> gives for a URL: it raises, or it returns a response with a
  status code, whose \<^verbatim>\<open>json()\<close> method returns the decoded body or raises.
\<close>

record response =
  status_code :: int
  json_body :: "pyexc + json"

type_synonym network = "string \<Rightarrow> pyexc + response"

text \<open>
  The two \<^verbatim>\<open>except\<close> clauses, tried in the order they are written: the first one whose
  class the exception is an instance of handles it.
\<close>

definition get_weather_handlers :: "(string \<times> json) list option outcome \<times> io \<Rightarrow> (string \<times> json) list option outcome \<times> io" where
  "get_weather_handlers r =
     (case r of
        (Returns v, w) \<Rightarrow> (Returns v, w)
      | (Raises e, w) \<Rightarrow>
          if is_RequestException e
          then (Returns None, py_print (''Error connecting to weather service: '' @ exc_str e) w)
          else if is_JSONDecodeError e
          then (Returns None, py_print ''Error: Invalid response from weather service'' w)
          else (Raises e, w))"

definition get_weather :: "network \<Rightarrow> string \<Rightarrow> io \<Rightarrow> (string \<times> json) list option outcome \<times> io" where
  "get_weather net postal_code w =
     (let url = ''https://wttr.in/'' @ postal_code @ ''?format=j1'';
          w1 = w\<lparr>requests := requests w @ [url]\<rparr>
      in get_weather_handlers
        (case net url of
           Inl e \<Rightarrow> (Raises e, w1)
         | Inr response \<Rightarrow>
             if status_code response = 200
             then (case json_body response of
                     Inl e \<Rightarrow> (Raises e, w1)
                   | Inr data \<Rightarrow> parse_weather_data data postal_code w1)
             else (Returns None,
                   py_print (''Error: Failed to retrieve weather data (Status: ''
                             @ py_str_int (status_code response) @ '')'') w1)))"

section \<open>main\<close>

text \<open>
  \<^verbatim>\<open>sys.exit(1)\<close> raises \<^verbatim>\<open>SystemExit(1)\<close>. \<open>argv\<close> is \<^verbatim>\<open>sys.argv\<close>: the script's name, then
  the arguments.
\<close>

definition main :: "string list \<Rightarrow> network \<Rightarrow> string \<Rightarrow> io \<Rightarrow> unit outcome \<times> io" where
  "main argv net now w =
     (if length argv \<noteq> 2
      then (Raises (SystemExit 1),
            py_print ''Example: python weather.py 10001''
              (py_print ''Usage: python weather.py <postal_code>'' w))
      else let postal_code = argv ! 1;
               w1 = py_print (''Retrieving weather information for postal code: ''
                              @ postal_code @ ''...'') w
           in (case get_weather net postal_code w1 of
                 (Raises e, w2) \<Rightarrow> (Raises e, w2)
               | (Returns weather_info, w2) \<Rightarrow>
                   if truthy weather_info then display_weather now weather_info w2
                   else (Raises (SystemExit 1),
                         py_print ''Failed to retrieve weather information.'' w2)))"

text \<open>
  The exit code of the process: 0 when \<open>main\<close> returns, the argument of \<^verbatim>\<open>sys.exit\<close>, and
  1 when another exception is not caught (the interpreter prints the traceback on
  standard error).
\<close>

fun exit_code :: "unit outcome \<Rightarrow> int" where
  "exit_code (Returns u) = 0"
| "exit_code (Raises (SystemExit n)) = n"
| "exit_code (Raises e) = 1"

definition run_script :: "string list \<Rightarrow> network \<Rightarrow> string \<Rightarrow> int \<times> io" where
  "run_script argv net now =
     (case main argv net now \<lparr>stdout = [], requests = []\<rparr> of (r, w) \<Rightarrow> (exit_code r, w))"

section \<open>Field paths of the specification\<close>

text \<open>
  A field path such as \<^verbatim>\<open>current_condition[0].weatherDesc[0].value\<close> is a list of steps.
  Resolving it in a document finds the value, or finds a key of the path absent from
  the object that should hold it (the path is missing), or meets a value that is not of
  the expected type or an array with no first element (the path is broken).
\<close>

datatype step = Key string | Idx0

datatype resolution = Found json | Absent | Broken

fun resolve :: "step list \<Rightarrow> json \<Rightarrow> resolution" where
  "resolve [] v = Found v"
| "resolve (Key k # ps) (JObj kvs) =
     (case map_of kvs k of None \<Rightarrow> Absent | Some x \<Rightarrow> resolve ps x)"
| "resolve (Idx0 # ps) (JArr (x # xs)) = resolve ps x"
| "resolve ps v = Broken"

definition field_or :: "resolution \<Rightarrow> json \<Rightarrow> json" where
  "field_or r d = (case r of Found v \<Rightarrow> v | Absent \<Rightarrow> d | Broken \<Rightarrow> d)"

definition current_path :: "string \<Rightarrow> step list" where
  "current_path k = [Key ''current_condition'', Idx0, Key k]"

definition condition_path :: "step list" where
  "condition_path = [Key ''current_condition'', Idx0, Key ''weatherDesc'', Idx0, Key ''value'']"

definition location_path :: "step list" where
  "location_path = [Key ''nearest_area'', Idx0, Key ''areaName'', Idx0, Key ''value'']"

text \<open>The seven extracted fields: name in the record, path in the document, default.\<close>

definition field_specs :: "(string \<times> step list \<times> json) list" where
  "field_specs =
     [(''location'', location_path, JStr ''Unknown''),
      (''temperature'', current_path ''temp_C'', JStr ''N/A''),
      (''temperature_f'', current_path ''temp_F'', JStr ''N/A''),
      (''condition'', condition_path, JStr ''N/A''),
      (''humidity'', current_path ''humidity'', JStr ''N/A''),
      (''wind_speed'', current_path ''windspeedKmph'', JStr ''N/A''),
      (''visibility'', current_path ''visibility'', JStr ''N/A'')]"

text \<open>
  The record the specification describes: the postal code, then every field with the
  value found at its path, or its default.
\<close>

definition expected_record :: "json \<Rightarrow> string \<Rightarrow> (string \<times> json) list" where
  "expected_record data p =
     (''postal_code'', JStr p) #
     map (\<lambda>(f, path, d). (f, field_or (resolve path data) d)) field_specs"

definition weather_keys :: "string list" where
  "weather_keys = [''postal_code'', ''location'', ''temperature'', ''temperature_f'',
     ''condition'', ''humidity'', ''wind_speed'', ''visibility'']"

text \<open>
  The containers on the paths: the two at the top level, and the two nested ones.
  \<open>present_containers\<close> lists the values of those the document has.
\<close>

definition container_paths :: "step list list" where
  "container_paths =
     [[Key ''current_condition''],
      [Key ''nearest_area''],
      [Key ''nearest_area'', Idx0, Key ''areaName''],
      [Key ''current_condition'', Idx0, Key ''weatherDesc'']]"

definition present_containers :: "json \<Rightarrow> json list" where
  "present_containers data =
     concat (map (\<lambda>path. case resolve path data of Found v \<Rightarrow> [v] | Absent \<Rightarrow> [] | Broken \<Rightarrow> [])
                 container_paths)"

fun starts_with_object :: "json \<Rightarrow> bool" where
  "starts_with_object (JArr (JObj kvs # vs)) = True"
| "starts_with_object v = False"

text \<open>A value on which \<^verbatim>\<open>[0]\<close> raises.\<close>

definition unsubscriptable :: "json \<Rightarrow> bool" where
  "unsubscriptable v = (case py_item0 v of Inl e \<Rightarrow> True | Inr x \<Rightarrow> False)"

text \<open>The container a \<^verbatim>\<open>.get(k, [{}])\<close> continues with.\<close>

abbreviation container_of :: "(string \<times> json) list \<Rightarrow> string \<Rightarrow> json" where
  "container_of kvs k \<equiv> dict_get kvs k (JArr [JObj []])"

section \<open>Lines of the output\<close>

text \<open>
  The text written between two states of the console, and its lines (each ended by a
  newline; a last line without one counts when it is not empty).
\<close>

definition written :: "io \<Rightarrow> io \<Rightarrow> string" where
  "written w w' = drop (length (stdout w)) (stdout w')"

fun split_lines :: "string \<Rightarrow> string \<Rightarrow> string list" where
  "split_lines acc [] = (if acc = [] then [] else [acc])"
| "split_lines acc (c # cs) =
     (if c = NL then acc # split_lines [] cs else split_lines (acc @ [c]) cs)"

definition lines_of :: "string \<Rightarrow> string list" where
  "lines_of s = split_lines [] s"

text \<open>
  The data lines of a display: the lines after the second border line, up to the
  closing border line.
\<close>

definition after_border :: "string list \<Rightarrow> string list" where
  "after_border ls = drop 1 (dropWhile (\<lambda>l. l \<noteq> border) ls)"

definition data_lines :: "string list \<Rightarrow> string list" where
  "data_lines ls = takeWhile (\<lambda>l. l \<noteq> border) (after_border (after_border ls))"

text \<open>The dictionary \<open>parse_weather_data\<close> builds, as a function of its eight values.\<close>

definition weather_record :: "json \<Rightarrow> json \<Rightarrow> json \<Rightarrow> json \<Rightarrow> json \<Rightarrow> json \<Rightarrow> json \<Rightarrow> json \<Rightarrow> (string \<times> json) list" where
  "weather_record postal_code location temperature temperature_f condition humidity wind_speed visibility =
     [(''postal_code'', postal_code),
      (''location'', location),
      (''temperature'', temperature),
      (''temperature_f'', temperature_f),
      (''condition'', condition),
      (''humidity'', humidity),
      (''wind_speed'', wind_speed),
      (''visibility'', visibility)]"

section \<open>Sample inputs\<close>

definition sample_document :: json where
  "sample_document = JObj
     [(''current_condition'', JArr [JObj
         [(''temp_C'', JStr ''20''),
          (''temp_F'', JStr ''68''),
          (''weatherDesc'', JArr [JObj [(''value'', JStr ''Sunny'')]]),
          (''humidity'', JStr ''50''),
          (''windspeedKmph'', JStr ''10''),
          (''visibility'', JStr ''10'')]]),
      (''nearest_area'', JArr [JObj
         [(''areaName'', JArr [JObj [(''value'', JStr ''New York'')]])]])]"

text \<open>The record of the sample document, and a sample time stamp.\<close>

definition sample_record :: "(string \<times> json) list" where
  "sample_record = weather_record (JStr ''10001'') (JStr ''New York'') (JStr ''20'') (JStr ''68'')
     (JStr ''Sunny'') (JStr ''50'') (JStr ''10'') (JStr ''10'')"

definition sample_now :: string where
  "sample_now = ''2024-02-14 09:30:00''"

text \<open>
  A document with some fields missing: no Fahrenheit temperature, humidity, wind speed or
  visibility, and no area name.
\<close>

definition partial_document :: json where
  "partial_document = JObj
     [(''current_condition'', JArr [JObj
         [(''temp_C'', JStr ''20''),
          (''weatherDesc'', JArr [JObj [(''value'', JStr ''Sunny'')]])]]),
      (''nearest_area'', JArr [JObj []])]"

text \<open>Documents with an empty array on a path: at the top level, and nested.\<close>

definition empty_conditions_document :: json where
  "empty_conditions_document = JObj [(''current_condition'', JArr [])]"

definition empty_description_document :: json where
  "empty_description_document = JObj
     [(''current_condition'', JArr [JObj
         [(''temp_C'', JStr ''20''),
          (''weatherDesc'', JArr [])]]),
      (''nearest_area'', JArr [JObj
         [(''areaName'', JArr [JObj [(''value'', JStr ''New York'')]])]])]"

text \<open>The sample document with an empty \<^verbatim>\<open>weatherDesc\<close> array: only the condition path is missing.\<close>

definition no_description_document :: json where
  "no_description_document = JObj
     [(''current_condition'', JArr [JObj
         [(''temp_C'', JStr ''20''),
          (''temp_F'', JStr ''68''),
          (''weatherDesc'', JArr []),
          (''humidity'', JStr ''50''),
          (''windspeedKmph'', JStr ''10''),
          (''visibility'', JStr ''10'')]]),
      (''nearest_area'', JArr [JObj
         [(''areaName'', JArr [JObj [(''value'', JStr ''New York'')]])]])]"

text \<open>A 404 response, whose body is not JSON, and the state of the console at start.\<close>

definition not_found :: response where
  "not_found = \<lparr>status_code = 404, json_body = Inl JSONDecodeError\<rparr>"

definition io0 :: io where
  "io0 = \<lparr>stdout = [], requests = []\<rparr>"

text \<open>The dictionary of a value, as \<^verbatim>\<open>.get\<close> needs it.\<close>

definition obj_of :: "json \<Rightarrow> pyexc + (string \<times> json) list" where
  "obj_of v = (case v of JObj kvs \<Rightarrow> Inr kvs | _ \<Rightarrow> Inl AttributeError)"

section \<open>Sequencing and subscripts\<close>

lemma bind_exc_simps [simp]:
  "bind_exc (Inr v) f = f v"
  "bind_exc (Inl e) f = Inl e"
  by (simp_all add: bind_exc_def)

lemma bind_exc_assoc: "bind_exc (bind_exc m f) g = bind_exc m (\<lambda>x. bind_exc (f x) g)"
  by (cases m) simp_all

lemma bind_exc_eq_Inr: "bind_exc m f = Inr y \<longleftrightarrow> (\<exists>x. m = Inr x \<and> f x = Inr y)"
  by (cases m) simp_all

lemma obj_of_JObj [simp]: "obj_of (JObj kvs) = Inr kvs"
  by (simp add: obj_of_def)

lemma obj_of_Inl: "obj_of v = Inl e \<Longrightarrow> e = AttributeError"
  by (cases v) (simp_all add: obj_of_def)

lemma obj_of_Inr: "obj_of v = Inr kvs \<longleftrightarrow> v = JObj kvs"
  by (cases v) (auto simp: obj_of_def)

lemma py_get_obj_of: "py_get v k d = bind_exc (obj_of v) (\<lambda>kvs. Inr (dict_get kvs k d))"
  by (cases v) (simp_all add: obj_of_def)

lemma py_item0_Inl: "py_item0 v = Inl e \<Longrightarrow> e = KeyError \<or> e = IndexError \<or> e = TypeError"
  by (cases v rule: py_item0.cases) auto

lemma py_item0_Inr_obj: "py_item0 v = Inr (JObj kvs) \<longleftrightarrow> (\<exists>r. v = JArr (JObj kvs # r))"
  by (cases v rule: py_item0.cases) auto

lemma unsubscriptable_iff: "unsubscriptable v \<longleftrightarrow> (\<exists>e. py_item0 v = Inl e)"
  by (cases "py_item0 v") (simp_all add: unsubscriptable_def)

lemma object_first_subscriptable: "\<not> unsubscriptable (JArr (JObj kvs # r))"
  by (simp add: unsubscriptable_def)

lemma starts_with_object_iff: "starts_with_object v \<longleftrightarrow> (\<exists>kvs r. v = JArr (JObj kvs # r))"
  by (cases v rule: starts_with_object.cases) auto

section \<open>The try block on an object\<close>

text \<open>The body with every \<^verbatim>\<open>.get\<close> and \<^verbatim>\<open>[0]\<close> in the order of evaluation, each made once.\<close>

lemma body_obj:
  "parse_weather_data_body (JObj kvs) p =
     bind_exc (py_item0 (container_of kvs ''current_condition'')) (\<lambda>current.
     bind_exc (py_item0 (container_of kvs ''nearest_area'')) (\<lambda>a.
     bind_exc (obj_of a) (\<lambda>akvs.
     bind_exc (py_item0 (container_of akvs ''areaName'')) (\<lambda>n.
     bind_exc (obj_of n) (\<lambda>nkvs.
     bind_exc (obj_of current) (\<lambda>ckvs.
     bind_exc (py_item0 (container_of ckvs ''weatherDesc'')) (\<lambda>c.
     bind_exc (obj_of c) (\<lambda>dkvs.
     Inr [(''postal_code'', JStr p),
          (''location'', dict_get nkvs ''value'' (JStr ''Unknown'')),
          (''temperature'', dict_get ckvs ''temp_C'' (JStr ''N/A'')),
          (''temperature_f'', dict_get ckvs ''temp_F'' (JStr ''N/A'')),
          (''condition'', dict_get dkvs ''value'' (JStr ''N/A'')),
          (''humidity'', dict_get ckvs ''humidity'' (JStr ''N/A'')),
          (''wind_speed'', dict_get ckvs ''windspeedKmph'' (JStr ''N/A'')),
          (''visibility'', dict_get ckvs ''visibility'' (JStr ''N/A''))]))))))))"
proof (cases "py_item0 (container_of kvs ''current_condition'')")
  case (Inl e)
  then show ?thesis by (simp add: parse_weather_data_body_def)
next
  case cur: (Inr current)
  show ?thesis
  proof (cases "py_item0 (container_of kvs ''nearest_area'')")
    case (Inl e)
    then show ?thesis by (simp add: parse_weather_data_body_def cur)
  next
    case a: (Inr a)
    show ?thesis
    proof (cases "obj_of a")
      case (Inl e)
      then show ?thesis by (simp add: parse_weather_data_body_def cur a py_get_obj_of)
    next
      case akvs: (Inr akvs)
      then have aeq: "a = JObj akvs" by (cases a) (simp_all add: obj_of_def)
      show ?thesis
      proof (cases "py_item0 (container_of akvs ''areaName'')")
        case (Inl e)
        then show ?thesis by (simp add: parse_weather_data_body_def cur a aeq akvs)
      next
        case n: (Inr n)
        show ?thesis
        proof (cases "obj_of n")
          case (Inl e)
          then show ?thesis
            by (simp add: parse_weather_data_body_def cur a aeq akvs n py_get_obj_of)
        next
          case nkvs: (Inr nkvs)
          then have neq: "n = JObj nkvs" by (cases n) (simp_all add: obj_of_def)
          show ?thesis
          proof (cases "obj_of current")
            case (Inl e)
            then show ?thesis
              by (simp add: parse_weather_data_body_def cur a aeq akvs n nkvs py_get_obj_of)
          next
            case ckvs: (Inr ckvs)
            then have ceq: "current = JObj ckvs" by (cases current) (simp_all add: obj_of_def)
            show ?thesis
              by (cases "py_item0 (container_of ckvs ''weatherDesc'')")
                (simp_all add: parse_weather_data_body_def cur a aeq akvs n neq nkvs ceq ckvs
                  py_get_obj_of bind_exc_assoc)
          qed
        qed
      qed
    qed
  qed
qed

lemma body_not_obj: "\<forall>kvs. data \<noteq> JObj kvs \<Longrightarrow> parse_weather_data_body data p = Inl AttributeError"
  by (cases data) (simp_all add: parse_weather_data_body_def)

lemma body_raise_cc:
  assumes "py_item0 (container_of kvs ''current_condition'') = Inl e"
  shows "parse_weather_data_body (JObj kvs) p = Inl e"
  using assms by (simp add: body_obj)

lemma body_raise_na:
  assumes "container_of kvs ''current_condition'' = JArr (x # r1)"
    and "py_item0 (container_of kvs ''nearest_area'') = Inl e"
  shows "parse_weather_data_body (JObj kvs) p = Inl e"
  using assms by (simp add: body_obj)

lemma body_raise_an:
  assumes "container_of kvs ''current_condition'' = JArr (x # r1)"
    and "container_of kvs ''nearest_area'' = JArr (JObj a # r2)"
    and "py_item0 (container_of a ''areaName'') = Inl e"
  shows "parse_weather_data_body (JObj kvs) p = Inl e"
  using assms by (simp add: body_obj)

lemma body_raise_wd:
  assumes "container_of kvs ''current_condition'' = JArr (JObj c # r1)"
    and "container_of kvs ''nearest_area'' = JArr (JObj a # r2)"
    and "container_of a ''areaName'' = JArr (JObj n # r3)"
    and "py_item0 (container_of c ''weatherDesc'') = Inl e"
  shows "parse_weather_data_body (JObj kvs) p = Inl e"
  using assms by (simp add: body_obj)

lemma parse_body_Inl:
  assumes "parse_weather_data_body data p = Inl e" and "e = KeyError \<or> e = IndexError \<or> e = TypeError"
  shows "parse_weather_data data p w = (Returns None, py_print ''Error: Unable to parse weather data'' w)"
  using assms by (auto simp: parse_weather_data_def)

lemma parse_body_Inr:
  assumes "parse_weather_data_body data p = Inr info"
  shows "parse_weather_data data p w = (Returns (Some info), w)"
  using assms by (simp add: parse_weather_data_def)

section \<open>Paths and containers\<close>

lemma resolve_Idx0_case:
  "resolve (Idx0 # ps) v = (case v of JArr (x # xs) \<Rightarrow> resolve ps x | _ \<Rightarrow> Broken)"
  by (cases "(Idx0 # ps, v)" rule: resolve.cases) auto

lemma resolve_Key_case:
  "resolve (Key k # ps) v =
     (case v of JObj kvs \<Rightarrow> (case map_of kvs k of None \<Rightarrow> Absent | Some x \<Rightarrow> resolve ps x)
      | _ \<Rightarrow> Broken)"
  by (cases v) auto

lemma container_of_cases:
  obtains (absent) "map_of kvs k = None" "container_of kvs k = JArr [JObj []]"
  | (present) v where "map_of kvs k = Some v" "container_of kvs k = v"
  by (cases "map_of kvs k") (auto simp: dict_get_def)

lemma map_of_container: "map_of kvs k = Some v \<Longrightarrow> container_of kvs k = v"
  by (simp add: dict_get_def)

lemma unsubscriptable_present:
  assumes "unsubscriptable (container_of kvs k)"
  shows "map_of kvs k = Some (container_of kvs k)"
  using assms by (cases kvs k rule: container_of_cases) (simp_all add: unsubscriptable_def)

lemma nested_present:
  assumes "container_of kvs k = JArr (JObj a # r)" and "map_of a k2 = Some v"
  shows "map_of kvs k = Some (JArr (JObj a # r))"
  using assms by (cases kvs k rule: container_of_cases) auto

lemma field_container:
  assumes "container_of kvs k = JArr (JObj c # r)"
  shows "field_or (resolve (Key k # Idx0 # Key k' # rest) (JObj kvs)) d =
         field_or (resolve (Key k' # rest) (JObj c)) d"
  using assms by (cases kvs k rule: container_of_cases) (simp_all add: field_or_def)

lemma field_leaf: "field_or (resolve [Key k] (JObj c)) d = dict_get c k d"
  by (simp add: field_or_def dict_get_def split: option.splits)

lemma path_container:
  assumes "resolve (Key k # Idx0 # Key k' # rest) data \<noteq> Broken"
  shows "\<exists>kvs c r. data = JObj kvs \<and> container_of kvs k = JArr (JObj c # r) \<and>
           resolve (Key k # Idx0 # Key k' # rest) data = resolve (Key k' # rest) (JObj c)"
proof -
  from assms obtain kvs where d: "data = JObj kvs"
    by (cases data) auto
  show ?thesis
  proof (cases kvs k rule: container_of_cases)
    case absent
    then show ?thesis by (simp add: d)
  next
    case (present x)
    with assms d have nb: "resolve (Idx0 # Key k' # rest) x \<noteq> Broken" by simp
    then obtain y ys where x: "x = JArr (y # ys)"
      by (auto simp: resolve_Idx0_case split: json.splits list.splits)
    with nb have "resolve (Key k' # rest) y \<noteq> Broken" by simp
    then obtain c where y: "y = JObj c"
      by (cases y) auto
    show ?thesis using present d x y by simp
  qed
qed

lemma found_top: "resolve [Key k] (JObj kvs) = Found v \<longleftrightarrow> map_of kvs k = Some v"
  by (simp split: option.splits)

lemma found_nested:
  "resolve [Key k, Idx0, Key k2] (JObj kvs) = Found v \<longleftrightarrow>
     (\<exists>a r. map_of kvs k = Some (JArr (JObj a # r)) \<and> map_of a k2 = Some v)"
proof (cases "map_of kvs k")
  case None
  then show ?thesis by simp
next
  case (Some x)
  show ?thesis
  proof (cases "\<exists>a r. x = JArr (JObj a # r)")
    case True
    then show ?thesis using Some by (auto split: option.splits)
  next
    case False
    then have "resolve [Idx0, Key k2] x = Broken"
      by (auto simp: resolve_Idx0_case resolve_Key_case split: json.splits list.splits)
    then show ?thesis using Some False by simp
  qed
qed

lemma present_containers_found:
  "v \<in> set (present_containers data) \<longleftrightarrow> (\<exists>path \<in> set container_paths. resolve path data = Found v)"
proof -
  have "set (case r of Found v \<Rightarrow> [v] | Absent \<Rightarrow> [] | Broken \<Rightarrow> []) = {v. r = Found v}" for r
    by (cases r) auto
  then show ?thesis by (auto simp: present_containers_def)
qed

lemma present_containers_set:
  "v \<in> set (present_containers (JObj kvs)) \<longleftrightarrow>
     map_of kvs ''current_condition'' = Some v \<or>
     map_of kvs ''nearest_area'' = Some v \<or>
     (\<exists>a r. map_of kvs ''nearest_area'' = Some (JArr (JObj a # r)) \<and> map_of a ''areaName'' = Some v) \<or>
     (\<exists>c r. map_of kvs ''current_condition'' = Some (JArr (JObj c # r)) \<and> map_of c ''weatherDesc'' = Some v)"
  unfolding present_containers_found container_paths_def
  by (simp only: list.set bex_simps insert_iff empty_iff found_top found_nested) blast

text \<open>When the four containers start with an object the body returns the expected record, and only then does it return.\<close>

lemma body_all_objects:
  assumes "container_of kvs ''current_condition'' = JArr (JObj c # r1)"
    and "container_of kvs ''nearest_area'' = JArr (JObj a # r2)"
    and "container_of a ''areaName'' = JArr (JObj n # r3)"
    and "container_of c ''weatherDesc'' = JArr (JObj dk # r4)"
  shows "parse_weather_data_body (JObj kvs) p = Inr (expected_record (JObj kvs) p)"
proof -
  have loc: "field_or (resolve location_path (JObj kvs)) d = dict_get n ''value'' d" for d
    unfolding location_path_def
    by (simp only: field_container [OF assms(2)] field_container [OF assms(3)] field_leaf)
  have cond: "field_or (resolve condition_path (JObj kvs)) d = dict_get dk ''value'' d" for d
    unfolding condition_path_def
    by (simp only: field_container [OF assms(1)] field_container [OF assms(4)] field_leaf)
  have cur: "field_or (resolve (current_path k) (JObj kvs)) d = dict_get c k d" for k d
    unfolding current_path_def
    by (simp only: field_container [OF assms(1)] field_leaf)
  show ?thesis
    by (simp add: body_obj assms expected_record_def field_specs_def loc cond cur)
qed

lemma body_success:
  assumes "parse_weather_data_body data p = Inr info"
  shows "\<exists>kvs c r1 a r2 n r3 dk r4. data = JObj kvs \<and>
           container_of kvs ''current_condition'' = JArr (JObj c # r1) \<and>
           container_of kvs ''nearest_area'' = JArr (JObj a # r2) \<and>
           container_of a ''areaName'' = JArr (JObj n # r3) \<and>
           container_of c ''weatherDesc'' = JArr (JObj dk # r4)"
proof -
  obtain kvs where d: "data = JObj kvs"
    using assms body_not_obj by (cases "\<exists>kvs. data = JObj kvs") auto
  from assms [unfolded d body_obj bind_exc_eq_Inr obj_of_Inr]
  obtain a n c dk where
    "py_item0 (container_of kvs ''current_condition'') = Inr (JObj c)"
    "py_item0 (container_of kvs ''nearest_area'') = Inr (JObj a)"
    "py_item0 (container_of a ''areaName'') = Inr (JObj n)"
    "py_item0 (container_of c ''weatherDesc'') = Inr (JObj dk)"
    by auto
  then show ?thesis using d by (auto simp: py_item0_Inr_obj)
qed

text \<open>
  On an object whose present containers each start with an object or make \<^verbatim>\<open>[0]\<close> raise,
  the function fails as a whole when one of them is of the second kind, and returns the
  expected record otherwise.
\<close>

lemma parse_by_containers:
  assumes H: "\<forall>v \<in> set (present_containers (JObj kvs)). starts_with_object v \<or> unsubscriptable v"
  shows "parse_weather_data (JObj kvs) p w =
     (if \<exists>v \<in> set (present_containers (JObj kvs)). unsubscriptable v
      then (Returns None, py_print ''Error: Unable to parse weather data'' w)
      else (Returns (Some (expected_record (JObj kvs) p)), w))"
proof -
  let ?P = "set (present_containers (JObj kvs))"
  let ?fail = "(Returns None, py_print ''Error: Unable to parse weather data'' w)"
  have fail: "parse_weather_data (JObj kvs) p w = ?fail"
    if "parse_weather_data_body (JObj kvs) p = Inl e" "py_item0 v = Inl e" for e v
    using that parse_body_Inl py_item0_Inl by blast
  have top: "starts_with_object (container_of kvs k) \<or> unsubscriptable (container_of kvs k)"
      "unsubscriptable (container_of kvs k) \<Longrightarrow> container_of kvs k \<in> ?P"
    if "k = ''current_condition'' \<or> k = ''nearest_area''" for k
  proof -
    show "starts_with_object (container_of kvs k) \<or> unsubscriptable (container_of kvs k)"
    proof (cases kvs k rule: container_of_cases)
      case absent
      then show ?thesis by simp
    next
      case (present v)
      then have "v \<in> ?P" using that by (auto simp: present_containers_set)
      then show ?thesis using H present by auto
    qed
    show "container_of kvs k \<in> ?P" if "unsubscriptable (container_of kvs k)"
      using unsubscriptable_present [OF that] \<open>k = ''current_condition'' \<or> k = ''nearest_area''\<close>
      by (auto simp: present_containers_set)
  qed
  have nested: "starts_with_object (container_of a k2) \<or> unsubscriptable (container_of a k2)"
      "unsubscriptable (container_of a k2) \<Longrightarrow> container_of a k2 \<in> ?P"
    if "container_of kvs k = JArr (JObj a # r)"
      "(k = ''nearest_area'' \<and> k2 = ''areaName'') \<or> (k = ''current_condition'' \<and> k2 = ''weatherDesc'')"
    for k k2 a r
  proof -
    have mem: "v \<in> ?P" if "map_of a k2 = Some v" for v
      using nested_present [OF \<open>container_of kvs k = JArr (JObj a # r)\<close> that] that
        \<open>(k = ''nearest_area'' \<and> k2 = ''areaName'') \<or> (k = ''current_condition'' \<and> k2 = ''weatherDesc'')\<close>
      by (auto simp: present_containers_set)
    show "starts_with_object (container_of a k2) \<or> unsubscriptable (container_of a k2)"
    proof (cases a k2 rule: container_of_cases)
      case absent
      then show ?thesis by simp
    next
      case (present v)
      then show ?thesis using H mem by auto
    qed
    show "container_of a k2 \<in> ?P" if "unsubscriptable (container_of a k2)"
      using unsubscriptable_present [OF that] mem by blast
  qed
  show ?thesis
  proof (cases "unsubscriptable (container_of kvs ''current_condition'')")
    case True
    then obtain e where "py_item0 (container_of kvs ''current_condition'') = Inl e"
      by (auto simp: unsubscriptable_iff)
    then have "parse_weather_data (JObj kvs) p w = ?fail"
      using fail body_raise_cc by blast
    then show ?thesis using True top(2) by auto
  next
    case False
    then obtain c r1 where cc: "container_of kvs ''current_condition'' = JArr (JObj c # r1)"
      using top(1) [of "''current_condition''"] by (auto simp: starts_with_object_iff)
    show ?thesis
    proof (cases "unsubscriptable (container_of kvs ''nearest_area'')")
      case True
      then obtain e where "py_item0 (container_of kvs ''nearest_area'') = Inl e"
        by (auto simp: unsubscriptable_iff)
      then have "parse_weather_data (JObj kvs) p w = ?fail"
        using fail body_raise_na [OF cc] by blast
      then show ?thesis using True top(2) by auto
    next
      case False
      then obtain a r2 where na: "container_of kvs ''nearest_area'' = JArr (JObj a # r2)"
        using top(1) [of "''nearest_area''"] by (auto simp: starts_with_object_iff)
      show ?thesis
      proof (cases "unsubscriptable (container_of a ''areaName'')")
        case True
        then obtain e where "py_item0 (container_of a ''areaName'') = Inl e"
          by (auto simp: unsubscriptable_iff)
        then have "parse_weather_data (JObj kvs) p w = ?fail"
          using fail body_raise_an [OF cc na] by blast
        moreover have "container_of a ''areaName'' \<in> ?P"
          using nested(2) [OF na] True by simp
        ultimately show ?thesis using True by auto
      next
        case False
        then obtain n r3 where an: "container_of a ''areaName'' = JArr (JObj n # r3)"
          using nested(1) [OF na] by (auto simp: starts_with_object_iff)
        show ?thesis
        proof (cases "unsubscriptable (container_of c ''weatherDesc'')")
          case True
          then obtain e where "py_item0 (container_of c ''weatherDesc'') = Inl e"
            by (auto simp: unsubscriptable_iff)
          then have "parse_weather_data (JObj kvs) p w = ?fail"
            using fail body_raise_wd [OF cc na an] by blast
          moreover have "container_of c ''weatherDesc'' \<in> ?P"
            using nested(2) [OF cc] True by simp
          ultimately show ?thesis using True by auto
        next
          case False
          then obtain dk r4 where wd: "container_of c ''weatherDesc'' = JArr (JObj dk # r4)"
            using nested(1) [OF cc] by (auto simp: starts_with_object_iff)
          have none: "\<not> unsubscriptable v" if "v \<in> ?P" for v
          proof -
            from that consider
                "map_of kvs ''current_condition'' = Some v"
              | "map_of kvs ''nearest_area'' = Some v"
              | a' r' where "map_of kvs ''nearest_area'' = Some (JArr (JObj a' # r'))"
                  "map_of a' ''areaName'' = Some v"
              | c' r' where "map_of kvs ''current_condition'' = Some (JArr (JObj c' # r'))"
                  "map_of c' ''weatherDesc'' = Some v"
              unfolding present_containers_set by blast
            then show ?thesis
            proof cases
              case 1
              then show ?thesis using cc map_of_container object_first_subscriptable by metis
            next
              case 2
              then show ?thesis using na map_of_container object_first_subscriptable by metis
            next
              case 3
              then have "a' = a" using na map_of_container [OF 3(1)] by simp
              then show ?thesis using 3 an map_of_container object_first_subscriptable by metis
            next
              case 4
              then have "c' = c" using cc map_of_container [OF 4(1)] by simp
              then show ?thesis using 4 wd map_of_container object_first_subscriptable by metis
            qed
          qed
          have "parse_weather_data (JObj kvs) p w = (Returns (Some (expected_record (JObj kvs) p)), w)"
            using body_all_objects [OF cc na an wd] parse_body_Inr by blast
          then show ?thesis using none by auto
        qed
      qed
    qed
  qed
qed

section \<open>Claims on the extraction\<close>

text \<open>
  A path can also be missing because an array on it has no first element. In the sample
  document with \<^verbatim>\<open>weatherDesc = []\<close> the condition path is the only one missing, and the
  six others are present; the function does not return a record with a defaulted
  condition, it reports the error and returns \<^verbatim>\<open>None\<close>.
\<close>

theorem missing_by_empty_array_counterexample:
  "resolve location_path no_description_document = Found (JStr ''New York'') \<and>
   resolve (current_path ''temp_C'') no_description_document = Found (JStr ''20'') \<and>
   resolve (current_path ''temp_F'') no_description_document = Found (JStr ''68'') \<and>
   resolve condition_path no_description_document = Broken \<and>
   resolve (current_path ''humidity'') no_description_document = Found (JStr ''50'') \<and>
   resolve (current_path ''windspeedKmph'') no_description_document = Found (JStr ''10'') \<and>
   resolve (current_path ''visibility'') no_description_document = Found (JStr ''10'') \<and>
   parse_weather_data no_description_document ''10001'' io0 =
     (Returns None, py_print ''Error: Unable to parse weather data'' io0)"
  by (simp add: location_path_def current_path_def condition_path_def no_description_document_def
      parse_weather_data_def parse_weather_data_body_def dict_get_def)

text \<open>
  C1, as the code has it. For every JSON document in which each of the seven field paths
  is either present or missing because a key of the path is absent from the object that
  should hold it, \<open>parse_weather_data\<close> returns a record, and prints nothing; the record
  has the postal code, the default (\<^verbatim>\<open>"N/A"\<close>, or \<^verbatim>\<open>"Unknown"\<close> for the location) for
  exactly the missing paths and the value of the document for the present ones.
\<close>

theorem missing_fields_default:
  assumes "\<forall>(f, path, d) \<in> set field_specs. resolve path data \<noteq> Broken"
  shows "parse_weather_data data p w = (Returns (Some (expected_record data p)), w)"
proof -
  have nb: "resolve location_path data \<noteq> Broken"
    "resolve (current_path ''temp_C'') data \<noteq> Broken"
    "resolve condition_path data \<noteq> Broken"
    using assms by (simp_all add: field_specs_def)
  from path_container [OF nb(2) [unfolded current_path_def]]
  obtain kvs c r1 where d: "data = JObj kvs"
    and cc: "container_of kvs ''current_condition'' = JArr (JObj c # r1)"
    by blast
  from path_container [OF nb(1) [unfolded location_path_def]] d
  obtain a r2 where na: "container_of kvs ''nearest_area'' = JArr (JObj a # r2)"
    and "resolve [Key ''areaName'', Idx0, Key ''value''] (JObj a) \<noteq> Broken"
    using nb(1) [unfolded location_path_def] by auto
  from path_container [OF this(2)]
  obtain n r3 where an: "container_of a ''areaName'' = JArr (JObj n # r3)"
    by blast
  from path_container [OF nb(3) [unfolded condition_path_def]] d cc
  have "resolve [Key ''weatherDesc'', Idx0, Key ''value''] (JObj c) \<noteq> Broken"
    using nb(3) [unfolded condition_path_def] by auto
  from path_container [OF this]
  obtain dk r4 where wd: "container_of c ''weatherDesc'' = JArr (JObj dk # r4)"
    by blast
  show ?thesis
    unfolding d using body_all_objects [OF cc na an wd] by (rule parse_body_Inr)
qed

text \<open>
  The partial document has five of the seven paths missing; the two present ones keep
  their values.
\<close>

theorem missing_fields_default_witness:
  "resolve location_path partial_document = Absent \<and>
   resolve (current_path ''temp_C'') partial_document = Found (JStr ''20'') \<and>
   resolve (current_path ''temp_F'') partial_document = Absent \<and>
   resolve condition_path partial_document = Found (JStr ''Sunny'') \<and>
   resolve (current_path ''humidity'') partial_document = Absent \<and>
   resolve (current_path ''windspeedKmph'') partial_document = Absent \<and>
   resolve (current_path ''visibility'') partial_document = Absent \<and>
   parse_weather_data partial_document ''10001'' io0 =
     (Returns (Some
        [(''postal_code'', JStr ''10001''),
         (''location'', JStr ''Unknown''),
         (''temperature'', JStr ''20''),
         (''temperature_f'', JStr ''N/A''),
         (''condition'', JStr ''Sunny''),
         (''humidity'', JStr ''N/A''),
         (''wind_speed'', JStr ''N/A''),
         (''visibility'', JStr ''N/A'')]), io0)"
proof -
  have h: "\<forall>(f, path, d) \<in> set field_specs. resolve path partial_document \<noteq> Broken"
    by (simp add: field_specs_def location_path_def current_path_def condition_path_def
        partial_document_def)
  have e: "expected_record partial_document ''10001'' =
        [(''postal_code'', JStr ''10001''),
         (''location'', JStr ''Unknown''),
         (''temperature'', JStr ''20''),
         (''temperature_f'', JStr ''N/A''),
         (''condition'', JStr ''Sunny''),
         (''humidity'', JStr ''N/A''),
         (''wind_speed'', JStr ''N/A''),
         (''visibility'', JStr ''N/A'')]"
    by (simp add: expected_record_def field_specs_def location_path_def current_path_def
        condition_path_def partial_document_def field_or_def)
  have r: "resolve location_path partial_document = Absent"
    "resolve (current_path ''temp_C'') partial_document = Found (JStr ''20'')"
    "resolve (current_path ''temp_F'') partial_document = Absent"
    "resolve condition_path partial_document = Found (JStr ''Sunny'')"
    "resolve (current_path ''humidity'') partial_document = Absent"
    "resolve (current_path ''windspeedKmph'') partial_document = Absent"
    "resolve (current_path ''visibility'') partial_document = Absent"
    by (simp_all add: location_path_def current_path_def condition_path_def partial_document_def)
  show ?thesis
    using r missing_fields_default [OF h, of "''10001''" io0] unfolding e by blast
qed

text \<open>
  C2. For the well-formed sample document (New York, 20 C, 68 F, Sunny, humidity 50,
  wind 10, visibility 10) and postal code 10001, \<open>parse_weather_data\<close> returns exactly the
  record with these eight entries, and prints nothing.
\<close>

theorem parse_sample_document:
  "parse_weather_data sample_document ''10001'' w =
     (Returns (Some
        [(''postal_code'', JStr ''10001''),
         (''location'', JStr ''New York''),
         (''temperature'', JStr ''20''),
         (''temperature_f'', JStr ''68''),
         (''condition'', JStr ''Sunny''),
         (''humidity'', JStr ''50''),
         (''wind_speed'', JStr ''10''),
         (''visibility'', JStr ''10'')]), w)"
  by (simp add: parse_weather_data_def parse_weather_data_body_def bind_exc_def dict_get_def
      sample_document_def)

text \<open>
  When \<^verbatim>\<open>current_condition\<close> is an empty array no field is defaulted: the
  \<^verbatim>\<open>IndexError\<close> is caught, the error is reported and the function returns \<^verbatim>\<open>None\<close>.
\<close>

theorem empty_array_fails_counterexample:
  "parse_weather_data empty_conditions_document ''10001'' io0 =
     (Returns None, py_print ''Error: Unable to parse weather data'' io0)"
  by (simp add: empty_conditions_document_def parse_weather_data_def parse_weather_data_body_def
      dict_get_def)

text \<open>
  When the first element of \<^verbatim>\<open>weatherDesc\<close> is not an object, the \<^verbatim>\<open>.get\<close> on it raises
  \<^verbatim>\<open>AttributeError\<close>, which the handler does not list: the exception leaves the function.
\<close>

lemma non_object_element_raises:
  "parse_weather_data (JObj [(''current_condition'', JArr [JObj [(''weatherDesc'', JArr [JStr ''Sunny''])]])])
     p w = (Raises AttributeError, w)"
  by (simp add: parse_weather_data_def parse_weather_data_body_def dict_get_def)

text \<open>
  C3, as the code has it. For every JSON object in which each container on the paths
  (\<^verbatim>\<open>current_condition\<close>, \<^verbatim>\<open>nearest_area\<close>, \<^verbatim>\<open>areaName\<close>, \<^verbatim>\<open>weatherDesc\<close>) that is present
  is either an array whose first element is an object, or a value on which \<^verbatim>\<open>[0]\<close> raises
  (an empty array, an empty string, an object, a number, a boolean, null):
  if one of them is of the second kind, no field is defaulted, the function prints
  \<^verbatim>\<open>Error: Unable to parse weather data\<close> and returns \<^verbatim>\<open>None\<close>; otherwise it returns
  the record in which every field whose path has an absent key has its default. In both
  cases it returns and does not raise.
\<close>

theorem parse_defaults_or_fails:
  assumes H: "\<forall>v \<in> set (present_containers (JObj kvs)). starts_with_object v \<or> unsubscriptable v"
  shows "parse_weather_data (JObj kvs) p w =
     (if \<exists>v \<in> set (present_containers (JObj kvs)). unsubscriptable v
      then (Returns None, py_print ''Error: Unable to parse weather data'' w)
      else (Returns (Some (expected_record (JObj kvs) p)), w))"
  using H by (rule parse_by_containers)

text \<open>
  Both branches: an empty \<^verbatim>\<open>weatherDesc\<close> array fails the whole extraction, and the
  partial document gives a record with defaults.
\<close>

theorem parse_defaults_or_fails_witness:
  "list_all (\<lambda>v. starts_with_object v \<or> unsubscriptable v)
     (present_containers empty_description_document) \<and>
   parse_weather_data empty_description_document ''10001'' io0 =
     (Returns None, py_print ''Error: Unable to parse weather data'' io0) \<and>
   list_all (\<lambda>v. starts_with_object v \<or> unsubscriptable v)
     (present_containers partial_document) \<and>
   parse_weather_data partial_document ''10001'' io0 =
     (Returns (Some
        [(''postal_code'', JStr ''10001''),
         (''location'', JStr ''Unknown''),
         (''temperature'', JStr ''20''),
         (''temperature_f'', JStr ''N/A''),
         (''condition'', JStr ''Sunny''),
         (''humidity'', JStr ''N/A''),
         (''wind_speed'', JStr ''N/A''),
         (''visibility'', JStr ''N/A'')]), io0)"
proof -
  have p1: "present_containers empty_description_document =
      [JArr [JObj [(''temp_C'', JStr ''20''), (''weatherDesc'', JArr [])]],
       JArr [JObj [(''areaName'', JArr [JObj [(''value'', JStr ''New York'')]])]],
       JArr [JObj [(''value'', JStr ''New York'')]],
       JArr []]"
    by (simp add: present_containers_def container_paths_def empty_description_document_def)
  have p2: "present_containers partial_document =
      [JArr [JObj [(''temp_C'', JStr ''20''),
                   (''weatherDesc'', JArr [JObj [(''value'', JStr ''Sunny'')]])]],
       JArr [JObj []],
       JArr [JObj [(''value'', JStr ''Sunny'')]]]"
    by (simp add: present_containers_def container_paths_def partial_document_def)
  have h1: "\<forall>v \<in> set (present_containers empty_description_document).
       starts_with_object v \<or> unsubscriptable v"
    unfolding p1 by (simp add: unsubscriptable_def)
  have h2: "\<forall>v \<in> set (present_containers partial_document).
       starts_with_object v \<or> unsubscriptable v"
    unfolding p2 by (simp add: unsubscriptable_def)
  have u1: "\<exists>v \<in> set (present_containers empty_description_document). unsubscriptable v"
    unfolding p1 by (simp add: unsubscriptable_def)
  have u2: "\<not> (\<exists>v \<in> set (present_containers partial_document). unsubscriptable v)"
    unfolding p2 by (simp add: unsubscriptable_def)
  have e: "expected_record partial_document ''10001'' =
        [(''postal_code'', JStr ''10001''),
         (''location'', JStr ''Unknown''),
         (''temperature'', JStr ''20''),
         (''temperature_f'', JStr ''N/A''),
         (''condition'', JStr ''Sunny''),
         (''humidity'', JStr ''N/A''),
         (''wind_speed'', JStr ''N/A''),
         (''visibility'', JStr ''N/A'')]"
    by (simp add: expected_record_def field_specs_def location_path_def current_path_def
        condition_path_def partial_document_def field_or_def)
  have t1: "parse_weather_data empty_description_document ''10001'' io0 =
     (Returns None, py_print ''Error: Unable to parse weather data'' io0)"
    using parse_defaults_or_fails [OF h1 [unfolded empty_description_document_def], of "''10001''" io0]
      u1
    unfolding empty_description_document_def by simp
  have t2: "parse_weather_data partial_document ''10001'' io0 =
     (Returns (Some (expected_record partial_document ''10001'')), io0)"
    using parse_defaults_or_fails [OF h2 [unfolded partial_document_def], of "''10001''" io0]
      u2
    unfolding partial_document_def by simp
  show ?thesis using h1 h2 t1 t2 unfolding e list_all_iff by blast
qed

text \<open>
  With both top-level containers absent the extraction succeeds; with both present and
  of the expected type it fails, on a nested empty array.
\<close>

theorem absent_containers_counterexample:
  "parse_weather_data (JObj []) ''10001'' io0 =
     (Returns (Some
        [(''postal_code'', JStr ''10001''),
         (''location'', JStr ''Unknown''),
         (''temperature'', JStr ''N/A''),
         (''temperature_f'', JStr ''N/A''),
         (''condition'', JStr ''N/A''),
         (''humidity'', JStr ''N/A''),
         (''wind_speed'', JStr ''N/A''),
         (''visibility'', JStr ''N/A'')]), io0) \<and>
   parse_weather_data empty_description_document ''10001'' io0 =
     (Returns None, py_print ''Error: Unable to parse weather data'' io0)"
  by (simp add: parse_weather_data_def parse_weather_data_body_def dict_get_def
      empty_description_document_def)

text \<open>
  C4, as the code has it. For every JSON object in which each container on the paths
  (the top-level \<^verbatim>\<open>current_condition\<close> and \<^verbatim>\<open>nearest_area\<close>, the nested \<^verbatim>\<open>areaName\<close> and
  \<^verbatim>\<open>weatherDesc\<close>) that is present is either an array whose first element is an object, or
  an empty array, an empty string, an object, a number, a boolean or null:
  \<open>parse_weather_data\<close> fails as a whole (returns \<^verbatim>\<open>None\<close> and prints
  \<^verbatim>\<open>Error: Unable to parse weather data\<close>) if and only if one of these containers is
  present and is not an array whose first element is an object, so is an empty array or
  of the wrong type. An absent container is not among them and never fails the
  operation; and when the operation does not fail it returns the record in which a
  missing leaf field has its default.
\<close>

theorem parse_fails_iff_bad_container:
  assumes H: "\<forall>v \<in> set (present_containers (JObj kvs)). starts_with_object v \<or> unsubscriptable v"
  shows "(parse_weather_data (JObj kvs) p w =
            (Returns None, py_print ''Error: Unable to parse weather data'' w) \<longleftrightarrow>
          (\<exists>v \<in> set (present_containers (JObj kvs)). \<not> starts_with_object v)) \<and>
         (parse_weather_data (JObj kvs) p w =
            (Returns None, py_print ''Error: Unable to parse weather data'' w) \<or>
          parse_weather_data (JObj kvs) p w =
            (Returns (Some (expected_record (JObj kvs) p)), w))"
proof -
  have u: "unsubscriptable v \<longleftrightarrow> \<not> starts_with_object v"
    if "v \<in> set (present_containers (JObj kvs))" for v
    using H that object_first_subscriptable by (auto simp: starts_with_object_iff)
  have e: "(\<exists>v \<in> set (present_containers (JObj kvs)). unsubscriptable v) \<longleftrightarrow>
           (\<exists>v \<in> set (present_containers (JObj kvs)). \<not> starts_with_object v)"
    using u by blast
  show ?thesis
    unfolding parse_by_containers [OF H] e by simp
qed

text \<open>
  In the document with an empty \<^verbatim>\<open>weatherDesc\<close> array a present container is not an
  array starting with an object, and the extraction fails; in the partial document every
  present container starts with an object, and the record is returned.
\<close>

theorem parse_fails_iff_bad_container_witness:
  "list_all (\<lambda>v. starts_with_object v \<or> unsubscriptable v)
     (present_containers empty_description_document) \<and>
   list_ex (\<lambda>v. \<not> starts_with_object v) (present_containers empty_description_document) \<and>
   parse_weather_data empty_description_document ''10001'' io0 =
     (Returns None, py_print ''Error: Unable to parse weather data'' io0) \<and>
   list_all (\<lambda>v. starts_with_object v \<or> unsubscriptable v)
     (present_containers partial_document) \<and>
   list_all starts_with_object (present_containers partial_document) \<and>
   parse_weather_data partial_document ''10001'' io0 \<noteq>
     (Returns None, py_print ''Error: Unable to parse weather data'' io0)"
proof -
  have p1: "present_containers empty_description_document =
      [JArr [JObj [(''temp_C'', JStr ''20''), (''weatherDesc'', JArr [])]],
       JArr [JObj [(''areaName'', JArr [JObj [(''value'', JStr ''New York'')]])]],
       JArr [JObj [(''value'', JStr ''New York'')]],
       JArr []]"
    by (simp add: present_containers_def container_paths_def empty_description_document_def)
  have p2: "present_containers partial_document =
      [JArr [JObj [(''temp_C'', JStr ''20''),
                   (''weatherDesc'', JArr [JObj [(''value'', JStr ''Sunny'')]])]],
       JArr [JObj []],
       JArr [JObj [(''value'', JStr ''Sunny'')]]]"
    by (simp add: present_containers_def container_paths_def partial_document_def)
  have h1: "\<forall>v \<in> set (present_containers empty_description_document).
       starts_with_object v \<or> unsubscriptable v"
    unfolding p1 by (simp add: unsubscriptable_def)
  have h2: "\<forall>v \<in> set (present_containers partial_document).
       starts_with_object v \<or> unsubscriptable v"
    unfolding p2 by (simp add: unsubscriptable_def)
  have b1: "\<exists>v \<in> set (present_containers empty_description_document). \<not> starts_with_object v"
    unfolding p1 by simp
  have b2: "\<not> (\<exists>v \<in> set (present_containers partial_document). \<not> starts_with_object v)"
    unfolding p2 by simp
  have t1: "parse_weather_data empty_description_document ''10001'' io0 =
     (Returns None, py_print ''Error: Unable to parse weather data'' io0)"
    using parse_fails_iff_bad_container [OF h1 [unfolded empty_description_document_def],
        of "''10001''" io0] b1
    unfolding empty_description_document_def by blast
  have t2: "parse_weather_data partial_document ''10001'' io0 \<noteq>
     (Returns None, py_print ''Error: Unable to parse weather data'' io0)"
    using parse_fails_iff_bad_container [OF h2 [unfolded partial_document_def],
        of "''10001''" io0] b2
    unfolding partial_document_def by blast
  show ?thesis
    using h1 h2 b1 b2 t1 t2 unfolding list_all_iff list_ex_iff by blast
qed

text \<open>
  C9. Whenever \<open>parse_weather_data\<close> returns a record, the record has exactly the eight
  keys \<^verbatim>\<open>postal_code\<close>, \<^verbatim>\<open>location\<close>, \<^verbatim>\<open>temperature\<close>, \<^verbatim>\<open>temperature_f\<close>, \<^verbatim>\<open>condition\<close>,
  \<^verbatim>\<open>humidity\<close>, \<^verbatim>\<open>wind_speed\<close>, \<^verbatim>\<open>visibility\<close>; the postal code is the string the
  caller gave; and every other field is the value found at its path, or its default when
  the path is missing.
\<close>

theorem parse_success_record:
  assumes "parse_weather_data data p w = (Returns (Some info), w')"
  shows "map fst info = weather_keys \<and>
         map_of info ''postal_code'' = Some (JStr p) \<and>
         (\<forall>(f, path, d) \<in> set field_specs.
            map_of info f = Some (case resolve path data of Found v \<Rightarrow> v | Absent \<Rightarrow> d | Broken \<Rightarrow> d))"
proof -
  from assms have body: "parse_weather_data_body data p = Inr info"
    by (auto simp: parse_weather_data_def split: sum.splits if_splits)
  from body_success [OF body] obtain kvs c r1 a r2 n r3 dk r4 where
    d: "data = JObj kvs"
    and cc: "container_of kvs ''current_condition'' = JArr (JObj c # r1)"
    and na: "container_of kvs ''nearest_area'' = JArr (JObj a # r2)"
    and an: "container_of a ''areaName'' = JArr (JObj n # r3)"
    and wd: "container_of c ''weatherDesc'' = JArr (JObj dk # r4)"
    by blast
  have info: "info = expected_record data p"
    using body body_all_objects [OF cc na an wd, of p] d by simp
  show ?thesis
    unfolding info
    by (simp add: expected_record_def field_specs_def weather_keys_def field_or_def)
qed

text \<open>The sample document is parsed to the sample record, which has these properties.\<close>

theorem parse_success_record_witness:
  "parse_weather_data sample_document ''10001'' io0 = (Returns (Some sample_record), io0) \<and>
   map fst sample_record = weather_keys \<and>
   map_of sample_record ''postal_code'' = Some (JStr ''10001'') \<and>
   map_of sample_record ''location'' = Some (JStr ''New York'') \<and>
   map_of sample_record ''temperature'' = Some (JStr ''20'') \<and>
   map_of sample_record ''temperature_f'' = Some (JStr ''68'') \<and>
   map_of sample_record ''condition'' = Some (JStr ''Sunny'') \<and>
   map_of sample_record ''humidity'' = Some (JStr ''50'') \<and>
   map_of sample_record ''wind_speed'' = Some (JStr ''10'') \<and>
   map_of sample_record ''visibility'' = Some (JStr ''10'')"
proof -
  have h: "parse_weather_data sample_document ''10001'' io0 = (Returns (Some sample_record), io0)"
    by (simp add: parse_weather_data_def parse_weather_data_body_def dict_get_def
        sample_document_def sample_record_def weather_record_def)
  have v: "map_of sample_record ''location'' = Some (JStr ''New York'')"
    "map_of sample_record ''temperature'' = Some (JStr ''20'')"
    "map_of sample_record ''temperature_f'' = Some (JStr ''68'')"
    "map_of sample_record ''condition'' = Some (JStr ''Sunny'')"
    "map_of sample_record ''humidity'' = Some (JStr ''50'')"
    "map_of sample_record ''wind_speed'' = Some (JStr ''10'')"
    "map_of sample_record ''visibility'' = Some (JStr ''10'')"
    by (simp_all add: sample_record_def weather_record_def)
  show ?thesis using h v parse_success_record [OF h] by blast
qed

text \<open>
  C10. For the empty JSON object and any postal code \<open>p\<close>, \<open>parse_weather_data\<close> succeeds
  and returns the fully defaulted record; no failure is reported.
\<close>

theorem parse_empty_object:
  "parse_weather_data (JObj []) p w =
     (Returns (Some
        [(''postal_code'', JStr p),
         (''location'', JStr ''Unknown''),
         (''temperature'', JStr ''N/A''),
         (''temperature_f'', JStr ''N/A''),
         (''condition'', JStr ''N/A''),
         (''humidity'', JStr ''N/A''),
         (''wind_speed'', JStr ''N/A''),
         (''visibility'', JStr ''N/A'')]), w)"
  by (simp add: parse_weather_data_def parse_weather_data_body_def bind_exc_def dict_get_def)

section \<open>Claims on the display\<close>

lemma split_lines_line:
  "NL \<notin> set l \<Longrightarrow> split_lines acc (l @ NL # rest) = (acc @ l) # split_lines [] rest"
  by (induction l arbitrary: acc) auto

lemma lines_of_line: "NL \<notin> set l \<Longrightarrow> lines_of (l @ NL # rest) = l # lines_of rest"
  using split_lines_line [of l "[]" rest] by (simp add: lines_of_def)

lemma lines_of_Nil: "lines_of [] = []"
  by (simp add: lines_of_def)

lemma lines_of_terminated:
  "\<forall>l \<in> set ls. NL \<notin> set l \<Longrightarrow> lines_of (concat (map (\<lambda>l. l @ [NL]) ls)) = ls"
  by (induction ls) (simp_all add: lines_of_Nil lines_of_line)

lemma border_no_NL: "NL \<notin> set border"
  by (simp add: border_def)

lemma border_eq: "border = CHR ''='' # replicate 49 CHR ''=''"
proof -
  have "(50::nat) = Suc 49" by simp
  then show ?thesis unfolding border_def by (simp only: replicate_Suc)
qed

lemma border_Cons: "c # s = border \<longleftrightarrow> c = CHR ''='' \<and> s = replicate 49 CHR ''=''"
  unfolding border_eq by simp

lemma border_not_Nil: "[] \<noteq> border"
  unfolding border_eq by simp

lemma written_append: "stdout w' = stdout w @ s \<Longrightarrow> written w w' = s"
  by (simp add: written_def)

lemma stdout_py_print: "stdout (py_print s w) = stdout w @ s @ [NL]"
  by (simp add: py_print_def)

lemma then_do_print: "then_do (print_f (Inr s)) k w = k (py_print s w)"
  by (simp add: then_do_def print_f_def)

lemma print_f_Inr: "print_f (Inr s) w = (Returns (), py_print s w)"
  by (simp add: print_f_def)

lemma getitem_record:
  "py_getitem (weather_record pc loc t tf c h ws v) ''postal_code'' = Inr pc"
  "py_getitem (weather_record pc loc t tf c h ws v) ''location'' = Inr loc"
  "py_getitem (weather_record pc loc t tf c h ws v) ''temperature'' = Inr t"
  "py_getitem (weather_record pc loc t tf c h ws v) ''temperature_f'' = Inr tf"
  "py_getitem (weather_record pc loc t tf c h ws v) ''condition'' = Inr c"
  "py_getitem (weather_record pc loc t tf c h ws v) ''humidity'' = Inr h"
  "py_getitem (weather_record pc loc t tf c h ws v) ''wind_speed'' = Inr ws"
  "py_getitem (weather_record pc loc t tf c h ws v) ''visibility'' = Inr v"
  by (simp_all add: py_getitem_def weather_record_def)

lemma weather_record_not_Nil: "weather_record pc loc t tf c h ws v \<noteq> []"
  by (simp add: weather_record_def)

lemma display_weather_record:
  "display_weather now (Some (weather_record pc loc t tf c h ws v)) w =
     (Returns (),
      py_print (border @ [NL])
     (py_print (''Visibility: '' @ py_str v @ '' km'')
     (py_print (''Wind Speed: '' @ py_str ws @ '' km/h'')
     (py_print (''Humidity: '' @ py_str h @ ''%'')
     (py_print (''Condition: '' @ py_str c)
     (py_print (''Temperature: '' @ py_str t @ [DEG] @ ''C ('' @ py_str tf @ [DEG] @ ''F)'')
     (py_print border
     (py_print (''Date: '' @ now)
     (py_print (''Postal Code: '' @ py_str pc)
     (py_print (''Weather Information for '' @ py_str loc)
     (py_print (NL # border) w)))))))))))"
  by (simp add: display_weather_def weather_record_not_Nil then_do_print print_f_Inr getitem_record)

lemma display_weather_written:
  assumes "display_weather now (Some (weather_record pc loc t tf c h ws v)) w = (r, w')"
  shows "written w w' = concat (map (\<lambda>l. l @ [NL])
     [[], border,
      ''Weather Information for '' @ py_str loc,
      ''Postal Code: '' @ py_str pc,
      ''Date: '' @ now,
      border,
      ''Temperature: '' @ py_str t @ [DEG] @ ''C ('' @ py_str tf @ [DEG] @ ''F)'',
      ''Condition: '' @ py_str c,
      ''Humidity: '' @ py_str h @ ''%'',
      ''Wind Speed: '' @ py_str ws @ '' km/h'',
      ''Visibility: '' @ py_str v @ '' km'',
      border, []])"
proof -
  from assms have w': "w' = snd (display_weather now (Some (weather_record pc loc t tf c h ws v)) w)"
    by simp
  show ?thesis
    by (rule written_append) (simp add: w' display_weather_record stdout_py_print)
qed

text \<open>
  The display of the sample record has five data lines after the second border line,
  not six.
\<close>

theorem six_data_lines_counterexample:
  "length (data_lines (lines_of (written io0
      (snd (display_weather sample_now (Some sample_record) io0))))) \<noteq> 6"
proof -
  have w: "written io0 (snd (display_weather sample_now (Some sample_record) io0)) =
     concat (map (\<lambda>l. l @ [NL])
     [[], border,
      ''Weather Information for '' @ py_str (JStr ''New York''),
      ''Postal Code: '' @ py_str (JStr ''10001''),
      ''Date: '' @ sample_now,
      border,
      ''Temperature: '' @ py_str (JStr ''20'') @ [DEG] @ ''C ('' @ py_str (JStr ''68'') @ [DEG] @ ''F)'',
      ''Condition: '' @ py_str (JStr ''Sunny''),
      ''Humidity: '' @ py_str (JStr ''50'') @ ''%'',
      ''Wind Speed: '' @ py_str (JStr ''10'') @ '' km/h'',
      ''Visibility: '' @ py_str (JStr ''10'') @ '' km'',
      border, []])"
    unfolding sample_record_def by (rule display_weather_written) (rule surjective_pairing)
  have "lines_of (written io0 (snd (display_weather sample_now (Some sample_record) io0))) =
     [[], border,
      ''Weather Information for '' @ py_str (JStr ''New York''),
      ''Postal Code: '' @ py_str (JStr ''10001''),
      ''Date: '' @ sample_now,
      border,
      ''Temperature: '' @ py_str (JStr ''20'') @ [DEG] @ ''C ('' @ py_str (JStr ''68'') @ [DEG] @ ''F)'',
      ''Condition: '' @ py_str (JStr ''Sunny''),
      ''Humidity: '' @ py_str (JStr ''50'') @ ''%'',
      ''Wind Speed: '' @ py_str (JStr ''10'') @ '' km/h'',
      ''Visibility: '' @ py_str (JStr ''10'') @ '' km'',
      border, []]"
    unfolding w by (rule lines_of_terminated) (simp add: border_no_NL sample_now_def)
  then show ?thesis
    by (simp add: data_lines_def after_border_def border_Cons border_not_Nil sample_now_def)
qed

text \<open>
  C5, as the code has it. For every record with the eight keys whose formatted values,
  like the time stamp, contain no newline, \<open>display_weather\<close> returns and writes thirteen
  lines: an empty line, a border of fifty \<^verbatim>\<open>=\<close>, the title, the postal code and the date,
  a second border, exactly five data lines (the temperature with Celsius and Fahrenheit
  on one line, the condition, the humidity, the wind speed, the visibility), a closing
  border and an empty line.
\<close>

theorem display_weather_lines:
  assumes "\<forall>x \<in> {pc, loc, t, tf, c, h, ws, v}. NL \<notin> set (py_str x)" and "NL \<notin> set now"
  shows "\<exists>w'. display_weather now (Some (weather_record pc loc t tf c h ws v)) w = (Returns (), w') \<and>
     lines_of (written w w') =
       [[], border,
        ''Weather Information for '' @ py_str loc,
        ''Postal Code: '' @ py_str pc,
        ''Date: '' @ now,
        border,
        ''Temperature: '' @ py_str t @ [DEG] @ ''C ('' @ py_str tf @ [DEG] @ ''F)'',
        ''Condition: '' @ py_str c,
        ''Humidity: '' @ py_str h @ ''%'',
        ''Wind Speed: '' @ py_str ws @ '' km/h'',
        ''Visibility: '' @ py_str v @ '' km'',
        border, []] \<and>
     data_lines (lines_of (written w w')) =
       [''Temperature: '' @ py_str t @ [DEG] @ ''C ('' @ py_str tf @ [DEG] @ ''F)'',
        ''Condition: '' @ py_str c,
        ''Humidity: '' @ py_str h @ ''%'',
        ''Wind Speed: '' @ py_str ws @ '' km/h'',
        ''Visibility: '' @ py_str v @ '' km''] \<and>
     length (data_lines (lines_of (written w w'))) = 5"
proof -
  obtain w' where d: "display_weather now (Some (weather_record pc loc t tf c h ws v)) w = (Returns (), w')"
    by (simp add: display_weather_record)
  let ?ls = "[[], border,
        ''Weather Information for '' @ py_str loc,
        ''Postal Code: '' @ py_str pc,
        ''Date: '' @ now,
        border,
        ''Temperature: '' @ py_str t @ [DEG] @ ''C ('' @ py_str tf @ [DEG] @ ''F)'',
        ''Condition: '' @ py_str c,
        ''Humidity: '' @ py_str h @ ''%'',
        ''Wind Speed: '' @ py_str ws @ '' km/h'',
        ''Visibility: '' @ py_str v @ '' km'',
        border, []]"
  have "\<forall>l \<in> set ?ls. NL \<notin> set l"
    using assms by (simp add: border_no_NL)
  then have ls: "lines_of (written w w') = ?ls"
    unfolding display_weather_written [OF d] by (rule lines_of_terminated)
  have dl: "data_lines ?ls =
       [''Temperature: '' @ py_str t @ [DEG] @ ''C ('' @ py_str tf @ [DEG] @ ''F)'',
        ''Condition: '' @ py_str c,
        ''Humidity: '' @ py_str h @ ''%'',
        ''Wind Speed: '' @ py_str ws @ '' km/h'',
        ''Visibility: '' @ py_str v @ '' km'']"
    by (simp add: data_lines_def after_border_def border_Cons border_not_Nil)
  show ?thesis using d ls dl by simp
qed

text \<open>The five data lines of the sample record.\<close>

theorem display_weather_lines_witness:
  "list_all (\<lambda>x. NL \<notin> set (py_str x))
     [JStr ''10001'', JStr ''New York'', JStr ''20'', JStr ''68'', JStr ''Sunny'', JStr ''50'',
      JStr ''10'', JStr ''10''] \<and>
   NL \<notin> set sample_now \<and>
   (\<exists>w'. display_weather sample_now (Some sample_record) io0 = (Returns (), w') \<and>
     data_lines (lines_of (written io0 w')) =
       [''Temperature: 20'' @ [DEG] @ ''C (68'' @ [DEG] @ ''F)'',
        ''Condition: Sunny'',
        ''Humidity: 50%'',
        ''Wind Speed: 10 km/h'',
        ''Visibility: 10 km''])"
proof -
  have h1: "\<forall>x \<in> {JStr ''10001'', JStr ''New York'', JStr ''20'', JStr ''68'', JStr ''Sunny'',
        JStr ''50'', JStr ''10'', JStr ''10''}. NL \<notin> set (py_str x)"
    by simp
  have h2: "NL \<notin> set sample_now"
    by (simp add: sample_now_def)
  from display_weather_lines [OF h1 h2, of io0]
  obtain w' where "display_weather sample_now (Some sample_record) io0 = (Returns (), w')"
    and "data_lines (lines_of (written io0 w')) =
       [''Temperature: '' @ py_str (JStr ''20'') @ [DEG] @ ''C ('' @ py_str (JStr ''68'') @ [DEG] @ ''F)'',
        ''Condition: '' @ py_str (JStr ''Sunny''),
        ''Humidity: '' @ py_str (JStr ''50'') @ ''%'',
        ''Wind Speed: '' @ py_str (JStr ''10'') @ '' km/h'',
        ''Visibility: '' @ py_str (JStr ''10'') @ '' km'']"
    unfolding sample_record_def by blast
  then have "\<exists>w'. display_weather sample_now (Some sample_record) io0 = (Returns (), w') \<and>
     data_lines (lines_of (written io0 w')) =
       [''Temperature: 20'' @ [DEG] @ ''C (68'' @ [DEG] @ ''F)'',
        ''Condition: Sunny'',
        ''Humidity: 50%'',
        ''Wind Speed: 10 km/h'',
        ''Visibility: 10 km'']"
    by simp
  moreover have "list_all (\<lambda>x. NL \<notin> set (py_str x))
     [JStr ''10001'', JStr ''New York'', JStr ''20'', JStr ''68'', JStr ''Sunny'', JStr ''50'',
      JStr ''10'', JStr ''10'']"
    by simp
  ultimately show ?thesis using h2 by blast
qed

section \<open>Claims on fetching and the command line\<close>

lemma get_weather_status:
  assumes "net (''https://wttr.in/'' @ pc @ ''?format=j1'') = Inr resp" and "status_code resp \<noteq> 200"
  shows "get_weather net pc w =
     (Returns None,
      py_print (''Error: Failed to retrieve weather data (Status: '' @ py_str_int (status_code resp) @ '')'')
        (w\<lparr>requests := requests w @ [''https://wttr.in/'' @ pc @ ''?format=j1'']\<rparr>))"
  unfolding get_weather_def Let_def assms(1)
  using assms(2) by (simp add: get_weather_handlers_def)

lemma main_get_weather_None:
  assumes "get_weather net pc (py_print (''Retrieving weather information for postal code: '' @ pc @ ''...'') w) = (Returns None, w')"
  shows "main [script, pc] net now w =
     (Raises (SystemExit 1), py_print ''Failed to retrieve weather information.'' w')"
proof -
  have nth: "[script, pc] ! 1 = pc" by simp
  show ?thesis
    unfolding main_def Let_def nth assms by simp
qed

text \<open>
  C6. For every response with a status code other than 200, \<open>get_weather\<close> returns
  \<^verbatim>\<open>None\<close> and prints one line, \<^verbatim>\<open>Error: Failed to retrieve weather data (Status: n)\<close>
  with \<open>n\<close> the decimal status code, and the process run with that postal code exits
  with code 1.
\<close>

theorem non_200_status:
  assumes "net (''https://wttr.in/'' @ pc @ ''?format=j1'') = Inr resp" and "status_code resp \<noteq> 200"
  shows "\<exists>w'. get_weather net pc w = (Returns None, w') \<and>
           written w w' =
             ''Error: Failed to retrieve weather data (Status: '' @ py_str_int (status_code resp) @ '')'' @ [NL] \<and>
           sublist (py_str_int (status_code resp)) (written w w') \<and>
           fst (run_script [script, pc] net now) = 1"
proof -
  define m where "m = ''Error: Failed to retrieve weather data (Status: '' @ py_str_int (status_code resp) @ '')''"
  define u where "u = ''https://wttr.in/'' @ pc @ ''?format=j1''"
  have g: "get_weather net pc w0 = (Returns None, py_print m (w0\<lparr>requests := requests w0 @ [u]\<rparr>))" for w0
    unfolding m_def u_def using assms by (rule get_weather_status)
  have wr: "written w (py_print m (w\<lparr>requests := requests w @ [u]\<rparr>)) = m @ [NL]"
    by (rule written_append) (simp add: py_print_def)
  have "sublist (py_str_int (status_code resp))
          ((''Error: Failed to retrieve weather data (Status: '') @ py_str_int (status_code resp) @ ('')'' @ [NL]))"
    by (rule sublist_appendI)
  then have sub: "sublist (py_str_int (status_code resp)) (m @ [NL])"
    unfolding m_def by simp
  have "main [script, pc] net now \<lparr>stdout = [], requests = []\<rparr> =
      (Raises (SystemExit 1), py_print ''Failed to retrieve weather information.''
         (py_print m ((py_print (''Retrieving weather information for postal code: '' @ pc @ ''...'')
              \<lparr>stdout = [], requests = []\<rparr>)\<lparr>requests := requests (py_print (''Retrieving weather information for postal code: '' @ pc @ ''...'')
              \<lparr>stdout = [], requests = []\<rparr>) @ [u]\<rparr>)))"
    by (rule main_get_weather_None) (rule g)
  then have ex: "fst (run_script [script, pc] net now) = 1"
    unfolding run_script_def by simp
  show ?thesis
    using g [of w] wr sub ex unfolding m_def by auto
qed

text \<open>A 404 response.\<close>

theorem non_200_status_witness:
  "status_code not_found \<noteq> 200 \<and>
   (\<exists>w'. get_weather (\<lambda>url. Inr not_found) ''00000'' io0 = (Returns None, w') \<and>
         written io0 w' = ''Error: Failed to retrieve weather data (Status: 404)'' @ [NL] \<and>
         sublist ''404'' (written io0 w') \<and>
         fst (run_script [''weather.py'', ''00000''] (\<lambda>url. Inr not_found) ''2024-02-14 09:30:00'') = 1)"
proof -
  have h1: "(\<lambda>url. Inr not_found :: pyexc + response) (''https://wttr.in/'' @ ''00000'' @ ''?format=j1'') = Inr not_found"
    by simp
  have h2: "status_code not_found \<noteq> 200"
    by (simp add: not_found_def)
  have s: "py_str_int (status_code not_found) = ''404''"
    by (simp add: not_found_def py_str_int_def nat_digits.simps)
  have a: "''Error: Failed to retrieve weather data (Status: '' @ ''404'' @ '')'' @ [NL] =
           ''Error: Failed to retrieve weather data (Status: 404)'' @ [NL]"
    by simp
  show ?thesis
    using h2 non_200_status [of "\<lambda>url. Inr not_found" "''00000''" not_found, OF h1 h2,
        of io0 "''weather.py''" "''2024-02-14 09:30:00''"]
    unfolding s a by blast
qed

text \<open>
  C7. A response body that is not valid JSON is meant to be reported with the
  decode-error message \<^verbatim>\<open>Error: Invalid response from weather service\<close>, which the
  second \<^verbatim>\<open>except\<close> clause prints. With requests 2.27 or later the exception
  \<^verbatim>\<open>response.json()\<close> raises is also a \<^verbatim>\<open>RequestException\<close>, so the first clause handles
  it: for every such response \<open>get_weather\<close> returns \<^verbatim>\<open>None\<close>, and the line it prints is the
  transport-error one, \<^verbatim>\<open>Error connecting to weather service:\<close> followed by the text of
  the exception.
\<close>

theorem invalid_json_connection_message:
  "get_weather (\<lambda>url. Inr \<lparr>status_code = 200, json_body = Inl (RequestsJSONDecodeError m)\<rparr>) pc w =
     (Returns None,
      py_print (''Error connecting to weather service: '' @ m)
        (w\<lparr>requests := requests w @ [''https://wttr.in/'' @ pc @ ''?format=j1'']\<rparr>))"
  unfolding get_weather_def Let_def by (simp add: get_weather_handlers_def)

text \<open>
  The second clause is reached only by a \<^verbatim>\<open>json.JSONDecodeError\<close> that is not a
  \<^verbatim>\<open>RequestException\<close>, as older versions of the library raise.
\<close>

lemma invalid_json_stdlib_error:
  "get_weather (\<lambda>url. Inr \<lparr>status_code = 200, json_body = Inl JSONDecodeError\<rparr>) pc w =
     (Returns None,
      py_print ''Error: Invalid response from weather service''
        (w\<lparr>requests := requests w @ [''https://wttr.in/'' @ pc @ ''?format=j1'']\<rparr>))"
  unfolding get_weather_def Let_def by (simp add: get_weather_handlers_def)

text \<open>
  C8. For every invocation in which \<^verbatim>\<open>sys.argv\<close> does not have exactly two entries (the
  script and one argument), so with no argument or with two or more, the program writes
  the two usage lines to standard output, exits with code 1 and makes no request.
\<close>

theorem wrong_argument_count:
  assumes "length argv \<noteq> 2"
  shows "run_script argv net now =
     (1, \<lparr>stdout = ''Usage: python weather.py <postal_code>'' @ [NL] @
                    ''Example: python weather.py 10001'' @ [NL],
          requests = []\<rparr>)"
  using assms by (simp add: run_script_def main_def py_print_def)

text \<open>No argument, and two arguments.\<close>

theorem wrong_argument_count_witness:
  "length [''weather.py''] \<noteq> 2 \<and>
   run_script [''weather.py''] (\<lambda>url. Inr not_found) sample_now =
     (1, \<lparr>stdout = ''Usage: python weather.py <postal_code>'' @ [NL] @
                    ''Example: python weather.py 10001'' @ [NL],
          requests = []\<rparr>) \<and>
   length [''weather.py'', ''10001'', ''90210''] \<noteq> 2 \<and>
   run_script [''weather.py'', ''10001'', ''90210''] (\<lambda>url. Inr not_found) sample_now =
     (1, \<lparr>stdout = ''Usage: python weather.py <postal_code>'' @ [NL] @
                    ''Example: python weather.py 10001'' @ [NL],
          requests = []\<rparr>)"
proof -
  have h1: "length [''weather.py''] \<noteq> 2" by simp
  have h2: "length [''weather.py'', ''10001'', ''90210''] \<noteq> 2" by simp
  show ?thesis
    using h1 h2 wrong_argument_count [OF h1] wrong_argument_count [OF h2] by blast
qed

end
